theory Spec2Isabelle
  imports Complex_Main "HOL-Library.Sublist"
begin

section \<open>Text primitives of the Python runtime\<close>

text \<open>
  A Python \<open>str\<close> is modelled as a \<open>string\<close> whose characters are the code points
  below 256, so \<open>length\<close> is Python's \<open>len\<close>. The character classes are those of
  Python 3 on that range: \<open>is_space\<close> is \<open>str.isspace\<close> (the class \<open>\s\<close> of \<open>re\<close>, and
  what \<open>strip()\<close> and \<open>split()\<close> remove), \<open>is_word\<close> is the class \<open>\w\<close>.
\<close>

definition is_space :: "char \<Rightarrow> bool" where
  "is_space c = (let n = (of_char c :: nat) in
     (9 \<le> n \<and> n \<le> 13) \<or> (28 \<le> n \<and> n \<le> 32) \<or> n = 133 \<or> n = 160)"

definition is_word :: "char \<Rightarrow> bool" where
  "is_word c = (let n = (of_char c :: nat) in
     (48 \<le> n \<and> n \<le> 57) \<or> (65 \<le> n \<and> n \<le> 90) \<or> n = 95 \<or> (97 \<le> n \<and> n \<le> 122) \<or>
     n = 170 \<or> n = 178 \<or> n = 179 \<or> n = 181 \<or> n = 185 \<or> n = 186 \<or>
     (188 \<le> n \<and> n \<le> 190) \<or> (192 \<le> n \<and> n \<le> 214) \<or> (216 \<le> n \<and> n \<le> 246) \<or>
     (248 \<le> n \<and> n \<le> 255))"

text \<open>\<open>str.lower()\<close> on one character.\<close>

definition lower_char :: "char \<Rightarrow> char" where
  "lower_char c = (let n = (of_char c :: nat) in
     if (65 \<le> n \<and> n \<le> 90) \<or> (192 \<le> n \<and> n \<le> 214) \<or> (216 \<le> n \<and> n \<le> 222)
     then char_of (n + 32) else c)"

definition lower :: "string \<Rightarrow> string" where
  "lower s = map lower_char s"

text \<open>\<open>s.strip()\<close>: leading and trailing whitespace removed.\<close>

definition strip :: "string \<Rightarrow> string" where
  "strip s = rev (dropWhile is_space (rev (dropWhile is_space s)))"

text \<open>\<open>sep.join(xs)\<close>.\<close>

fun join :: "string \<Rightarrow> string list \<Rightarrow> string" where
  "join sep [] = []"
| "join sep [x] = x"
| "join sep (x # y # ys) = x @ sep @ join sep (y # ys)"

text \<open>\<open>s.split()\<close>: the maximal runs of non-whitespace characters.\<close>

function split_ws :: "string \<Rightarrow> string list" where
  "split_ws [] = []"
| "split_ws (c # cs) =
     (if is_space c then split_ws cs
      else takeWhile (\<lambda>x. \<not> is_space x) (c # cs) # split_ws (dropWhile (\<lambda>x. \<not> is_space x) cs))"
  by pat_completeness auto
termination
  by (relation "measure length") (auto simp: less_Suc_eq_le length_dropWhile_le)

text \<open>\<open>s.split(d)\<close> for a one-character separator: empty pieces are kept.\<close>

fun split_on :: "char \<Rightarrow> string \<Rightarrow> string list" where
  "split_on d [] = [[]]"
| "split_on d (c # cs) =
     (if c = d then [] # split_on d cs
      else (case split_on d cs of [] \<Rightarrow> [[c]] | p # ps \<Rightarrow> (c # p) # ps))"

text \<open>\<open>xs[-k:]\<close> for an integer \<open>k\<close>: the last \<open>k\<close> elements when \<open>k\<close> is positive (all of
  them when there are fewer), the whole list when \<open>k = 0\<close> (the slice \<open>xs[0:]\<close>), and the list
  without its first \<open>-k\<close> elements when \<open>k\<close> is negative.\<close>

definition slice_last :: "'a list \<Rightarrow> int \<Rightarrow> 'a list" where
  "slice_last xs k =
     (if 0 < k then drop (length xs - nat k) xs
      else if k = 0 then xs
      else drop (nat (- k)) xs)"

section \<open>preprocessing.py\<close>

text \<open>\<open>re.sub(r'\s+', ' ', text)\<close>: every maximal run of whitespace becomes one blank.\<close>

function sub_whitespace :: "string \<Rightarrow> string" where
  "sub_whitespace [] = []"
| "sub_whitespace (c # cs) =
     (if is_space c then CHR '' '' # sub_whitespace (dropWhile is_space cs)
      else c # sub_whitespace cs)"
  by pat_completeness auto
termination
  by (relation "measure length") (auto simp: less_Suc_eq_le length_dropWhile_le)

text \<open>The characters kept by \<open>re.sub(r'[^\w\s\.\,\!\?\;\:\-\(\)]', '', text)\<close>.\<close>

definition kept_char :: "char \<Rightarrow> bool" where
  "kept_char c = (is_word c \<or> is_space c \<or> c \<in> set ''.,!?;:-()'')"

definition clean_text :: "string \<Rightarrow> string" where
  "clean_text text = strip (filter kept_char (sub_whitespace text))"

text \<open>
  The module-level \<open>encoding\<close> is the tiktoken encoding or \<open>None\<close>. The tokenizer is
  outside the repository: \<open>Some e\<close> stands for an encoding whose \<open>len(encoding.encode(t))\<close>
  is \<open>e t\<close>.
\<close>

type_synonym encoding = "(string \<Rightarrow> nat) option"

definition count_tokens :: "encoding \<Rightarrow> string \<Rightarrow> nat" where
  "count_tokens enc text = (case enc of Some e \<Rightarrow> e text | None \<Rightarrow> length text div 4)"

text \<open>\<open>re.split(r'(?<=[.!?])\s+', text)\<close>: the text is cut at every run of whitespace that
  follows one of \<open>.\<close>, \<open>!\<close>, \<open>?\<close>; \<open>cur\<close> is the piece read so far.\<close>

function split_sentences_from :: "string \<Rightarrow> string \<Rightarrow> string list" where
  "split_sentences_from cur [] = [cur]"
| "split_sentences_from cur (c # cs) =
     (if is_space c \<and> cur \<noteq> [] \<and> last cur \<in> set ''.!?''
      then cur # split_sentences_from [] (dropWhile is_space cs)
      else split_sentences_from (cur @ [c]) cs)"
  by pat_completeness auto
termination
  by (relation "measure (\<lambda>(cur, s). length s)") (auto simp: less_Suc_eq_le length_dropWhile_le)

definition split_sentences :: "string \<Rightarrow> string list" where
  "split_sentences text = split_sentences_from [] text"

record chunker =
  chunks :: "string list"
  current_chunk :: "string list"
  current_size :: nat

text \<open>The inner loop of \<open>chunk_text\<close> over the words of a sentence larger than
  \<open>chunk_size\<close>; \<open>current_chunk\<close> and \<open>current_size\<close> hold \<open>temp_chunk\<close> and \<open>temp_size\<close>.\<close>

fun split_large_sentence :: "encoding \<Rightarrow> int \<Rightarrow> int \<Rightarrow> string list \<Rightarrow> chunker \<Rightarrow> chunker" where
  "split_large_sentence enc chunk_size chunk_overlap [] st = st"
| "split_large_sentence enc chunk_size chunk_overlap (word # ws) st =
     (let word_tokens = count_tokens enc word;
          temp_chunk = current_chunk st;
          temp_size = current_size st
      in if int temp_size + int word_tokens > chunk_size \<and> temp_chunk \<noteq> [] then
           (let overlap_words =
                  (if int (length temp_chunk) > chunk_overlap
                   then slice_last temp_chunk chunk_overlap else temp_chunk);
                temp_chunk' = overlap_words @ [word]
            in split_large_sentence enc chunk_size chunk_overlap ws
                 \<lparr>chunks = chunks st @ [join '' '' temp_chunk],
                  current_chunk = temp_chunk',
                  current_size = count_tokens enc (join '' '' temp_chunk')\<rparr>)
         else split_large_sentence enc chunk_size chunk_overlap ws
                (st\<lparr>current_chunk := temp_chunk @ [word],
                    current_size := temp_size + word_tokens\<rparr>))"

text \<open>The body of the loop over the sentences.\<close>

definition add_sentence :: "encoding \<Rightarrow> int \<Rightarrow> int \<Rightarrow> string \<Rightarrow> chunker \<Rightarrow> chunker" where
  "add_sentence enc chunk_size chunk_overlap sentence0 st =
     (let sentence = strip sentence0 in
      if sentence = [] then st
      else
        let sentence_tokens = count_tokens enc sentence in
        if int sentence_tokens > chunk_size then
          (let st1 = (if current_chunk st \<noteq> []
                      then \<lparr>chunks = chunks st @ [join '' '' (current_chunk st)],
                            current_chunk = [], current_size = 0\<rparr>
                      else st);
               tmp = split_large_sentence enc chunk_size chunk_overlap (split_ws sentence)
                       \<lparr>chunks = chunks st1, current_chunk = [], current_size = 0\<rparr>
           in if current_chunk tmp \<noteq> [] then tmp
              else \<lparr>chunks = chunks tmp, current_chunk = current_chunk st1,
                    current_size = current_size st1\<rparr>)
        else if int (current_size st) + int sentence_tokens > chunk_size \<and> current_chunk st \<noteq> [] then
          (let overlap_text =
                 (if int (length (current_chunk st)) > chunk_overlap
                  then join '' '' (slice_last (current_chunk st) chunk_overlap)
                  else join '' '' (current_chunk st));
               cur = (if overlap_text \<noteq> [] then [overlap_text, sentence] else [sentence])
           in \<lparr>chunks = chunks st @ [join '' '' (current_chunk st)],
               current_chunk = cur,
               current_size = count_tokens enc (join '' '' cur)\<rparr>)
        else st\<lparr>current_chunk := current_chunk st @ [sentence],
                current_size := current_size st + sentence_tokens\<rparr>)"

fun add_sentences :: "encoding \<Rightarrow> int \<Rightarrow> int \<Rightarrow> string list \<Rightarrow> chunker \<Rightarrow> chunker" where
  "add_sentences enc chunk_size chunk_overlap [] st = st"
| "add_sentences enc chunk_size chunk_overlap (s # ss) st =
     add_sentences enc chunk_size chunk_overlap ss (add_sentence enc chunk_size chunk_overlap s st)"

text \<open>\<open>chunk_text\<close> up to the line that filters the small chunks out: the chunks as
  assembled, the remaining chunk included.\<close>

definition assembled_chunks :: "encoding \<Rightarrow> string \<Rightarrow> int \<Rightarrow> int \<Rightarrow> string list" where
  "assembled_chunks enc text0 chunk_size chunk_overlap =
     (let text = clean_text text0 in
      if text = [] then []
      else
        let st = add_sentences enc chunk_size chunk_overlap (split_sentences text)
                   \<lparr>chunks = [], current_chunk = [], current_size = 0\<rparr>
        in if current_chunk st \<noteq> [] then chunks st @ [join '' '' (current_chunk st)]
           else chunks st)"

definition chunk_text :: "encoding \<Rightarrow> string \<Rightarrow> int \<Rightarrow> int \<Rightarrow> string list" where
  "chunk_text enc text chunk_size chunk_overlap =
     filter (\<lambda>chunk. count_tokens enc chunk > 10) (assembled_chunks enc text chunk_size chunk_overlap)"

text \<open>The sentences that the loop of \<open>chunk_text\<close> accumulates: the pieces of the cleaned
  text, each stripped, the empty ones skipped.\<close>

definition sentences_of :: "string \<Rightarrow> string list" where
  "sentences_of text = filter (\<lambda>s. s \<noteq> []) (map strip (split_sentences (clean_text text)))"

text \<open>The tokenizer of the specification's example: one token per letter.\<close>

definition is_letter :: "char \<Rightarrow> bool" where
  "is_letter c = (let n = (of_char c :: nat) in (65 \<le> n \<and> n \<le> 90) \<or> (97 \<le> n \<and> n \<le> 122))"

definition letter_tokens :: "string \<Rightarrow> nat" where
  "letter_tokens s = length (filter is_letter s)"

section \<open>The collaborators outside the repository\<close>

text \<open>
  A Python exception is a value: \<open>HTTPException status detail\<close> is FastAPI's, \<open>Error msg\<close>
  any other subclass of \<open>Exception\<close>. A function that can raise returns \<open>exn + 'a\<close>.
  Floating-point numbers are modelled as reals.
\<close>

datatype exn = HTTPException int string | Error string

text \<open>The dictionary returned by \<open>collection.query\<close>; an entry can be \<open>None\<close>.\<close>

record query_result =
  documents :: "string list list option"
  distances :: "real list list option"

text \<open>The constants of \<open>config.py\<close> that the modelled functions read.\<close>

record config =
  TOP_K :: int
  SIMILARITY_THRESHOLD :: real
  USE_OPENAI :: bool
  OPENAI_API_KEY :: string

text \<open>
  The black boxes, with \<open>'c\<close> the type of a ChromaDB collection and \<open>'e\<close> that of an
  embedding vector: \<open>load_vector_db\<close> is the outcome of \<open>retrieval.load_vector_db()\<close> (a
  collection, \<open>None\<close> when there is none, or an exception of the client),
  \<open>collection_query c e n\<close> is \<open>c.query(query_embeddings=[e], n_results=n)\<close>,
  \<open>openai_chat prompt\<close> is the message content of the chat completion, \<open>None\<close> when
  anything in the \<open>try\<close> block raises, \<open>np_dot\<close> is \<open>np.dot\<close> on two embeddings and
  \<open>str_exn\<close> is \<open>str(e)\<close>.
\<close>

record ('c, 'e) env =
  cfg :: config
  load_vector_db :: "exn + 'c option"
  collection_query :: "'c \<Rightarrow> 'e \<Rightarrow> int \<Rightarrow> exn + query_result"
  create_query_embedding :: "string \<Rightarrow> exn + 'e"
  create_embeddings :: "string list \<Rightarrow> exn + 'e list"
  np_dot :: "'e \<Rightarrow> 'e \<Rightarrow> real"
  openai_chat :: "string \<Rightarrow> string option"
  str_exn :: "exn \<Rightarrow> string"

text \<open>\<open>top_k or config.TOP_K\<close>: \<open>None\<close> and \<open>0\<close> are falsy.\<close>

definition top_k_or :: "int option \<Rightarrow> int \<Rightarrow> int" where
  "top_k_or top_k dflt = (case top_k of None \<Rightarrow> dflt | Some k \<Rightarrow> if k = 0 then dflt else k)"

text \<open>\<open>r[0] if r else []\<close>: \<open>None\<close> and the empty list are falsy.\<close>

definition first_or_empty :: "'a list list option \<Rightarrow> 'a list" where
  "first_or_empty r = (case r of None \<Rightarrow> [] | Some [] \<Rightarrow> [] | Some (x # xs) \<Rightarrow> x)"

section \<open>retrieval.py\<close>

text \<open>\<open>search_similar\<close>, with the module's global \<open>_collection\<close> passed in and returned.\<close>

definition search_similar ::
  "('c, 'e) env \<Rightarrow> 'c option \<Rightarrow> 'e \<Rightarrow> int option \<Rightarrow> 'c option \<times> (exn + (string \<times> real) list)" where
  "search_similar E collection query_embedding top_k =
     (case (case collection of None \<Rightarrow> load_vector_db E | Some c \<Rightarrow> Inr (Some c)) of
        Inl e \<Rightarrow> (collection, Inl e)
      | Inr None \<Rightarrow> (None, Inr [])
      | Inr (Some c) \<Rightarrow>
          (case collection_query E c query_embedding (top_k_or top_k (TOP_K (cfg E))) of
             Inl e \<Rightarrow> (Some c, Inl e)
           | Inr results \<Rightarrow>
               (let docs = first_or_empty (documents results);
                    dists = first_or_empty (distances results);
                    similarities = map (\<lambda>(doc, dist). (doc, 1 - dist)) (zip docs dists)
                in (Some c,
                    Inr (filter (\<lambda>(doc, sim). sim \<ge> SIMILARITY_THRESHOLD (cfg E)) similarities)))))"

section \<open>ml\_components.py\<close>

text \<open>The inner loop of \<open>summarize_chunks\<close>; it stops at the first long sentence that does
  not fit (\<open>break\<close>). The state is \<open>(summary_sentences, total_length)\<close>.\<close>

fun summarize_sentences :: "int \<Rightarrow> string list \<Rightarrow> string list \<times> nat \<Rightarrow> string list \<times> nat" where
  "summarize_sentences max_length [] st = st"
| "summarize_sentences max_length (s # ss) (summary_sentences, total_length) =
     (let sentence = strip s in
      if sentence \<noteq> [] \<and> length sentence > 20 then
        (if int total_length + int (length sentence) \<le> max_length
         then summarize_sentences max_length ss
                (summary_sentences @ [sentence], total_length + length sentence)
         else (summary_sentences, total_length))
      else summarize_sentences max_length ss (summary_sentences, total_length))"

fun summarize_loop :: "int \<Rightarrow> string list \<Rightarrow> string list \<times> nat \<Rightarrow> string list \<times> nat" where
  "summarize_loop max_length [] st = st"
| "summarize_loop max_length (chunk # cs) st =
     (let st' = summarize_sentences max_length (split_on CHR ''.'' chunk) st in
      if int (snd st') \<ge> max_length then st' else summarize_loop max_length cs st')"

definition summarize_chunks :: "string list \<Rightarrow> int \<Rightarrow> string" where
  "summarize_chunks chunk_list max_length =
     (if chunk_list = [] then []
      else
        let summary = join ''. '' (fst (summarize_loop max_length chunk_list ([], 0)))
        in if summary \<noteq> [] \<and> last summary \<noteq> CHR ''.'' then summary @ ''.'' else summary)"

section \<open>qa\_pipeline.py\<close>

definition nl :: string where
  "nl = [CHR 0x0A]"

text \<open>\<open>config.PROMPT_TEMPLATE.format(context=context, question=question)\<close>.\<close>

definition prompt_of :: "string \<Rightarrow> string \<Rightarrow> string" where
  "prompt_of context question =
     ''You are a helpful AI assistant that answers questions based on the provided context.'' @ nl @ nl @
     ''Context:'' @ nl @ context @ nl @ nl @
     ''Question: '' @ question @ nl @ nl @
     ''Please provide a clear and concise answer based only on the context provided. '' @
     ''If the context doesn't contain enough information to answer the question, say so.'' @ nl @ nl @
     ''Answer:''"

text \<open>\<open>[w for w in question_lower.split() if len(w) > 3]\<close>.\<close>

definition question_words :: "string \<Rightarrow> string list" where
  "question_words question_lower = filter (\<lambda>w. length w > 3) (split_ws question_lower)"

text \<open>The loop of \<open>_fallback_response\<close> over the sentences; \<open>word in sentence_lower\<close> is
  \<open>sublist word sentence_lower\<close>.\<close>

fun relevant_sentences :: "string \<Rightarrow> string list \<Rightarrow> string list \<Rightarrow> string list" where
  "relevant_sentences question_lower [] acc = acc"
| "relevant_sentences question_lower (sentence # ss) acc =
     (let sentence_lower = lower sentence in
      if list_ex (\<lambda>word. sublist word sentence_lower) (question_words question_lower)
      then relevant_sentences question_lower ss (acc @ [strip sentence])
      else relevant_sentences question_lower ss acc)"

definition fallback_response :: "string \<Rightarrow> string \<Rightarrow> string" where
  "fallback_response context question =
     (let question_lower = lower question;
          sentences = split_on CHR ''.'' context;
          relevant = relevant_sentences question_lower sentences []
      in if relevant \<noteq> [] then join ''. '' (take 2 relevant) @ ''.''
         else ''Based on the provided context: '' @ take 200 context @ ''...'')"

definition get_llm_response :: "('c, 'e) env \<Rightarrow> string \<Rightarrow> string \<Rightarrow> string" where
  "get_llm_response E context question =
     (let prompt = prompt_of context question in
      if USE_OPENAI (cfg E) \<and> OPENAI_API_KEY (cfg E) \<noteq> [] then
        (case openai_chat E prompt of
           Some content \<Rightarrow> strip content
         | None \<Rightarrow> fallback_response context question)
      else fallback_response context question)"

record answer_record =
  answer :: string
  sources :: "string list"
  confidence :: real
  num_sources :: nat

text \<open>\<open>RAGPipeline.ask\<close>; \<open>vector_db_loaded\<close> is the attribute of the pipeline, and the global
  \<open>_collection\<close> of \<open>retrieval.py\<close> is passed in and returned.\<close>

definition ask ::
  "('c, 'e) env \<Rightarrow> bool \<Rightarrow> 'c option \<Rightarrow> string \<Rightarrow> int option \<Rightarrow> bool
     \<Rightarrow> 'c option \<times> (exn + answer_record)" where
  "ask E vector_db_loaded collection question top_k use_summarization =
     (if \<not> vector_db_loaded then
        (collection, Inr \<lparr>answer = ''Error: Vector database not initialized.'',
                          sources = [], confidence = 0, num_sources = 0\<rparr>)
      else
        case create_query_embedding E question of
          Inl e \<Rightarrow> (collection, Inl e)
        | Inr query_embedding \<Rightarrow>
            (case search_similar E collection query_embedding
                    (Some (top_k_or top_k (TOP_K (cfg E)))) of
               (collection', Inl e) \<Rightarrow> (collection', Inl e)
             | (collection', Inr retrieved) \<Rightarrow>
                 if retrieved = [] then
                   (collection',
                    Inr \<lparr>answer = ''I couldn't find relevant information to answer your question.'',
                         sources = [], confidence = 0, num_sources = 0\<rparr>)
                 else
                   (let srcs = map fst retrieved;
                        context = (if use_summarization then summarize_chunks srcs 150
                                   else join (nl @ nl) srcs);
                        ans = get_llm_response E context question;
                        avg_confidence = sum_list (map snd retrieved) / real (length retrieved)
                    in (collection',
                        Inr \<lparr>answer = ans, sources = take 3 srcs,
                             confidence = avg_confidence,
                             num_sources = length retrieved\<rparr>))))"

section \<open>evaluation.py\<close>

text \<open>\<open>calculate_relevance_score\<close>: the mean of the products of the query's embedding with
  those of the texts (the embedder returns one vector for each text).\<close>

definition calculate_relevance_score :: "('c, 'e) env \<Rightarrow> string \<Rightarrow> string list \<Rightarrow> exn + real" where
  "calculate_relevance_score E query retrieved_texts =
     (if retrieved_texts = [] then Inr 0
      else
        case create_query_embedding E query of
          Inl e \<Rightarrow> Inl e
        | Inr query_emb \<Rightarrow>
            (case create_embeddings E retrieved_texts of
               Inl e \<Rightarrow> Inl e
             | Inr retrieved_embs \<Rightarrow>
                 (let similarities = map (\<lambda>emb. np_dot E query_emb emb) retrieved_embs
                  in Inr (sum_list similarities / real (length similarities)))))"

record retrieval_eval =
  relevance_score :: real
  coverage :: real
  is_relevant :: bool
  is_complete :: bool
  assessment :: string

text \<open>\<open>evaluate_retrieval\<close>; the set \<open>query_keywords\<close> is a list without duplicates.\<close>

definition evaluate_retrieval ::
  "('c, 'e) env \<Rightarrow> string \<Rightarrow> string list \<Rightarrow> real \<Rightarrow> exn + retrieval_eval" where
  "evaluate_retrieval E query retrieved_texts min_score =
     (case calculate_relevance_score E query retrieved_texts of
        Inl e \<Rightarrow> Inl e
      | Inr relevance \<Rightarrow>
          (let query_keywords = remdups (map lower (filter (\<lambda>word. length word > 3) (split_ws query)));
               retrieved_text = lower (join '' '' retrieved_texts);
               covered_keywords = length (filter (\<lambda>keyword. sublist keyword retrieved_text) query_keywords);
               cov = (if query_keywords \<noteq> []
                      then real covered_keywords / real (length query_keywords) else 0);
               relevant = (relevance \<ge> min_score);
               complete = (cov \<ge> 0.5)
           in Inr \<lparr>relevance_score = relevance, coverage = cov,
                   is_relevant = relevant, is_complete = complete,
                   assessment = (if relevant \<and> complete then ''Good'' else ''Needs improvement'')\<rparr>))"

record answer_eval =
  has_answer :: bool
  context_usage :: real
  length_score :: real
  overall_quality :: string

definition evaluate_answer_quality :: "string \<Rightarrow> string \<Rightarrow> string \<Rightarrow> answer_eval" where
  "evaluate_answer_quality ans query context =
     (let has = (length (strip ans) > 0);
          context_keywords = remdups (map lower (filter (\<lambda>word. length word > 4) (split_ws context)));
          answer_lower = lower ans;
          usage = length (filter (\<lambda>keyword. sublist keyword answer_lower) context_keywords);
          context_usage_ratio = (if context_keywords \<noteq> []
                                 then real usage / real (length context_keywords) else 0);
          answer_length = length (split_ws ans);
          score = (if 10 \<le> answer_length \<and> answer_length \<le> 200 then 1 else 0.5)
      in \<lparr>has_answer = has, context_usage = context_usage_ratio, length_score = score,
          overall_quality = (if has \<and> context_usage_ratio > 0.3 then ''Good''
                             else ''Needs improvement'')\<rparr>)"

record evaluation =
  query :: string
  retrieval_evaluation :: retrieval_eval
  answer_evaluation :: answer_eval
  overall_score :: real
  recommendation :: string

definition comprehensive_evaluation ::
  "('c, 'e) env \<Rightarrow> string \<Rightarrow> string list \<Rightarrow> string \<Rightarrow> exn + evaluation" where
  "comprehensive_evaluation E q retrieved_texts ans =
     (let context = join (nl @ nl) retrieved_texts in
      case evaluate_retrieval E q retrieved_texts 0.6 of
        Inl e \<Rightarrow> Inl e
      | Inr retrieval_ev \<Rightarrow>
          (let answer_ev = evaluate_answer_quality ans q context;
               overall = relevance_score retrieval_ev * 0.5 +
                         coverage retrieval_ev * 0.2 +
                         context_usage answer_ev * 0.2 +
                         length_score answer_ev * 0.1
           in Inr \<lparr>query = q, retrieval_evaluation = retrieval_ev,
                   answer_evaluation = answer_ev, overall_score = overall,
                   recommendation = (if overall \<ge> 0.7 then ''Good'' else ''Needs improvement'')\<rparr>))"

section \<open>main.py\<close>

record question_request =
  question :: string
  top_k :: "int option"
  use_summarization :: "bool option"
  evaluate :: "bool option"

record question_response =
  response_answer :: string
  response_sources :: "string list"
  response_confidence :: real
  response_num_sources :: nat
  response_evaluation :: "evaluation option"

text \<open>An \<open>Optional[bool]\<close> as a condition: \<open>None\<close> is falsy.\<close>

definition truthy :: "bool option \<Rightarrow> bool" where
  "truthy b = (case b of None \<Rightarrow> False | Some v \<Rightarrow> v)"

text \<open>The \<open>try\<close> block of \<open>ask_question\<close>: \<open>Inl\<close> is the exception raised inside it.\<close>

definition ask_question_body ::
  "('c, 'e) env \<Rightarrow> bool \<Rightarrow> 'c option \<Rightarrow> question_request
     \<Rightarrow> 'c option \<times> (exn + question_response)" where
  "ask_question_body E vector_db_loaded collection request =
     (if strip (question request) = [] then
        (collection, Inl (HTTPException 400 ''Question cannot be empty''))
      else
        case ask E vector_db_loaded collection (question request) (top_k request)
               (truthy (use_summarization request)) of
          (collection', Inl e) \<Rightarrow> (collection', Inl e)
        | (collection', Inr result) \<Rightarrow>
            (case (if truthy (evaluate request) \<and> sources result \<noteq> []
                   then map_sum id Some
                          (comprehensive_evaluation E (question request) (sources result) (answer result))
                   else Inr None) of
               Inl e \<Rightarrow> (collection', Inl e)
             | Inr ev \<Rightarrow>
                 (collection',
                  Inr \<lparr>response_answer = answer result, response_sources = sources result,
                       response_confidence = confidence result,
                       response_num_sources = num_sources result,
                       response_evaluation = ev\<rparr>)))"

text \<open>\<open>ask_question\<close>: \<open>except Exception as e\<close> catches every exception of the block,
  \<open>HTTPException\<close> being a subclass of \<open>Exception\<close>, and raises the 500 response.\<close>

definition ask_question ::
  "('c, 'e) env \<Rightarrow> bool \<Rightarrow> 'c option \<Rightarrow> question_request
     \<Rightarrow> 'c option \<times> (exn + question_response)" where
  "ask_question E vector_db_loaded collection request =
     (case ask_question_body E vector_db_loaded collection request of
        (collection', Inl e) \<Rightarrow>
          (collection', Inl (HTTPException 500 (''Internal server error: '' @ str_exn E e)))
      | (collection', Inr response) \<Rightarrow> (collection', Inr response))"


section \<open>The specification's reading of the fallback answerer\<close>

text \<open>The sentences of the context (its pieces between full stops) that contain, letter
  case ignored, at least one word of the question longer than 3 characters.\<close>

definition matching_sentences :: "string \<Rightarrow> string \<Rightarrow> string list" where
  "matching_sentences context q =
     filter (\<lambda>sentence. \<exists>w \<in> set (split_ws (lower q)). length w > 3 \<and> sublist w (lower sentence))
       (split_on CHR ''.'' context)"

section \<open>A test double for the collaborators\<close>

text \<open>A store with three collections (number 0 is empty, 1 holds two documents, any other
  four), no hosted model, and embeddings whose products are all 0.8.\<close>

definition demo_query :: "nat \<Rightarrow> nat \<Rightarrow> int \<Rightarrow> exn + query_result" where
  "demo_query c e n =
     (if c = 0 then Inr \<lparr>documents = Some [[]], distances = Some [[]]\<rparr>
      else if c = 1 then Inr \<lparr>documents = Some [[''near'', ''far'']], distances = Some [[0.2, 0.7]]\<rparr>
      else Inr \<lparr>documents = Some [[''one'', ''two'', ''three'', ''four'']],
                 distances = Some [[0.1, 0.2, 0.3, 0.4]]\<rparr>)"

definition demo_env :: "(nat, nat) env" where
  "demo_env =
     \<lparr>cfg = \<lparr>TOP_K = 3, SIMILARITY_THRESHOLD = 0.5, USE_OPENAI = False, OPENAI_API_KEY = []\<rparr>,
      load_vector_db = Inr None,
      collection_query = demo_query,
      create_query_embedding = (\<lambda>q. Inr (length q)),
      create_embeddings = (\<lambda>ts. Inr (map length ts)),
      np_dot = (\<lambda>a b. 0.8),
      openai_chat = (\<lambda>p. None),
      str_exn = (\<lambda>e. case e of HTTPException c d \<Rightarrow> d | Error m \<Rightarrow> m)\<rparr>"

section \<open>Properties of the chunker\<close>

lemma add_sentence_blank:
  "strip s = [] \<Longrightarrow> add_sentence enc chunk_size chunk_overlap s st = st"
  by (simp add: add_sentence_def)

lemma add_sentence_fits:
  assumes "strip s \<noteq> []"
    and "int (current_size st) + int (count_tokens enc (strip s)) \<le> chunk_size"
  shows "add_sentence enc chunk_size chunk_overlap s st =
           st\<lparr>current_chunk := current_chunk st @ [strip s],
              current_size := current_size st + count_tokens enc (strip s)\<rparr>"
proof -
  from assms(2) have "\<not> int (count_tokens enc (strip s)) > chunk_size" by linarith
  with assms show ?thesis by (simp add: add_sentence_def Let_def)
qed

lemma add_sentences_fit:
  "int (current_size st) +
     int (sum_list (map (count_tokens enc) (filter (\<lambda>s. s \<noteq> []) (map strip ss)))) \<le> chunk_size
   \<Longrightarrow> add_sentences enc chunk_size chunk_overlap ss st =
        st\<lparr>current_chunk := current_chunk st @ filter (\<lambda>s. s \<noteq> []) (map strip ss),
           current_size := current_size st +
             sum_list (map (count_tokens enc) (filter (\<lambda>s. s \<noteq> []) (map strip ss)))\<rparr>"
proof (induction ss arbitrary: st)
  case Nil
  then show ?case by simp
next
  case (Cons s ss)
  show ?case
  proof (cases "strip s = []")
    case True
    with Cons show ?thesis by (simp add: add_sentence_blank)
  next
    case False
    let ?st = "st\<lparr>current_chunk := current_chunk st @ [strip s],
              current_size := current_size st + count_tokens enc (strip s)\<rparr>"
    from False Cons.prems
    have fit: "int (current_size st) + int (count_tokens enc (strip s)) \<le> chunk_size"
      by simp
    have step: "add_sentence enc chunk_size chunk_overlap s st = ?st"
      by (rule add_sentence_fits [OF False fit])
    from False Cons.prems
    have "int (current_size ?st) +
            int (sum_list (map (count_tokens enc) (filter (\<lambda>s. s \<noteq> []) (map strip ss)))) \<le> chunk_size"
      by simp
    from Cons.IH [OF this] False step show ?thesis by simp
  qed
qed

lemma assembled_chunks_fit:
  assumes "int (sum_list (map (count_tokens enc) (sentences_of text))) \<le> chunk_size"
  shows "assembled_chunks enc text chunk_size chunk_overlap =
           (if sentences_of text = [] then [] else [join '' '' (sentences_of text)])"
proof (cases "clean_text text = []")
  case True
  then show ?thesis
    by (simp add: assembled_chunks_def sentences_of_def split_sentences_def strip_def)
next
  case False
  let ?st0 = "\<lparr>chunks = [], current_chunk = [], current_size = 0\<rparr>"
  from assms have "int (current_size ?st0) +
     int (sum_list (map (count_tokens enc)
        (filter (\<lambda>s. s \<noteq> []) (map strip (split_sentences (clean_text text)))))) \<le> chunk_size"
    by (simp add: sentences_of_def)
  from add_sentences_fit [OF this] False show ?thesis
    by (simp add: assembled_chunks_def sentences_of_def Let_def)
qed

lemma length_strip_le: "length (strip s) \<le> length s"
proof -
  have "length (strip s) \<le> length (dropWhile is_space s)"
    unfolding strip_def using length_dropWhile_le [of is_space "rev (dropWhile is_space s)"] by simp
  also have "\<dots> \<le> length s" by (rule length_dropWhile_le)
  finally show ?thesis .
qed

lemma length_split_sentences_from:
  "sum_list (map length (split_sentences_from cur s)) \<le> length cur + length s"
proof (induction cur s rule: split_sentences_from.induct)
  case (1 cur)
  then show ?case by simp
next
  case (2 cur c cs)
  show ?case
  proof (cases "is_space c \<and> cur \<noteq> [] \<and> last cur \<in> set ''.!?''")
    case True
    from 2(1) [OF True] have "sum_list (map length (split_sentences_from [] (dropWhile is_space cs)))
        \<le> length (dropWhile is_space cs)" by simp
    also have "\<dots> \<le> length cs" by (rule length_dropWhile_le)
    finally have "sum_list (map length (split_sentences_from [] (dropWhile is_space cs))) \<le> length cs" .
    moreover from True have "split_sentences_from cur (c # cs) =
        cur # split_sentences_from [] (dropWhile is_space cs)"
      by (subst split_sentences_from.simps) (rule if_P)
    ultimately show ?thesis by simp
  next
    case False
    from 2(2) [OF False] have "sum_list (map length (split_sentences_from (cur @ [c]) cs))
        \<le> length (cur @ [c]) + length cs" .
    moreover from False have "split_sentences_from cur (c # cs) = split_sentences_from (cur @ [c]) cs"
      by (subst split_sentences_from.simps) (rule if_not_P)
    ultimately show ?thesis by simp
  qed
qed

lemma sum_div4_le: "sum_list (map (\<lambda>s. length s div 4) xs) \<le> sum_list (map length xs) div 4"
proof (induction xs)
  case Nil
  then show ?case by simp
next
  case (Cons x xs)
  have "length x div 4 + sum_list (map length xs) div 4 \<le> (length x + sum_list (map length xs)) div 4"
    by arith
  with Cons show ?case by simp
qed

lemma sum_length_filter_le: "sum_list (map length (filter P xs)) \<le> sum_list (map length xs)"
  by (induction xs) auto

lemma sum_length_strip_le: "sum_list (map length (map strip xs)) \<le> sum_list (map length xs)"
proof (induction xs)
  case Nil
  then show ?case by simp
next
  case (Cons x xs)
  with length_strip_le [of x] show ?case by simp
qed

lemma count_tokens_fallback: "count_tokens None = (\<lambda>s. length s div 4)"
  by (rule ext) (simp add: count_tokens_def)

lemma sentences_fit_fallback:
  assumes "int (count_tokens None (clean_text text)) \<le> chunk_size"
  shows "int (sum_list (map (count_tokens None) (sentences_of text))) \<le> chunk_size"
proof -
  let ?ps = "split_sentences (clean_text text)"
  have "sum_list (map length (sentences_of text)) \<le> sum_list (map length (map strip ?ps))"
    unfolding sentences_of_def by (rule sum_length_filter_le)
  also have "\<dots> \<le> sum_list (map length ?ps)"
    by (rule sum_length_strip_le)
  also have "\<dots> \<le> length (clean_text text)"
    using length_split_sentences_from [of "[]" "clean_text text"] by (simp add: split_sentences_def)
  finally have "sum_list (map length (sentences_of text)) div 4 \<le> length (clean_text text) div 4"
    by (rule div_le_mono)
  with sum_div4_le [of "sentences_of text"]
  have "sum_list (map (count_tokens None) (sentences_of text)) \<le> count_tokens None (clean_text text)"
    by (simp add: count_tokens_fallback)
  with assms show ?thesis by linarith
qed

text \<open>
  Claim C2, as amended. Whenever the token counts of the sentences of the cleaned text sum
  to at most \<open>chunk_size\<close> (for any tokenizer), and in particular whenever the cleaned text
  has at most \<open>chunk_size\<close> tokens under the fallback tokenizer (a quarter of the length),
  \<open>chunk_text\<close> returns exactly one chunk, the sentences joined by single blanks, when that
  chunk has more than 10 tokens, and no chunk otherwise. In general every returned chunk
  has more than 10 tokens.
\<close>

theorem chunk_text_short_text:
  "(int (sum_list (map (count_tokens enc) (sentences_of text))) \<le> chunk_size \<longrightarrow>
      chunk_text enc text chunk_size chunk_overlap =
        (if sentences_of text \<noteq> [] \<and> 10 < count_tokens enc (join '' '' (sentences_of text))
         then [join '' '' (sentences_of text)] else []))
   \<and> (int (count_tokens None (clean_text text)) \<le> chunk_size \<longrightarrow>
      chunk_text None text chunk_size chunk_overlap =
        (if sentences_of text \<noteq> [] \<and> 10 < count_tokens None (join '' '' (sentences_of text))
         then [join '' '' (sentences_of text)] else []))
   \<and> (\<forall>chunk \<in> set (chunk_text enc text chunk_size chunk_overlap). 10 < count_tokens enc chunk)"
proof -
  have general: "chunk_text e text chunk_size chunk_overlap =
        (if sentences_of text \<noteq> [] \<and> 10 < count_tokens e (join '' '' (sentences_of text))
         then [join '' '' (sentences_of text)] else [])"
    if "int (sum_list (map (count_tokens e) (sentences_of text))) \<le> chunk_size" for e
    using assembled_chunks_fit [OF that, of chunk_overlap] by (simp add: chunk_text_def)
  have filtered: "\<forall>chunk \<in> set (chunk_text enc text chunk_size chunk_overlap). 10 < count_tokens enc chunk"
    by (simp add: chunk_text_def)
  from general [of enc] general [OF sentences_fit_fallback] filtered show ?thesis by blast
qed

text \<open>The theorem at a text of two sentences that fits the default budget of 500 tokens.\<close>

theorem chunk_text_short_text_witness:
  "int (count_tokens None (clean_text ''Alpha beta gamma delta epsilon zeta eta.  Theta iota kappa.'')) \<le> 500
   \<and> chunk_text None ''Alpha beta gamma delta epsilon zeta eta.  Theta iota kappa.'' 500 50
       = [''Alpha beta gamma delta epsilon zeta eta. Theta iota kappa.'']
   \<and> 10 < count_tokens None ''Alpha beta gamma delta epsilon zeta eta. Theta iota kappa.''"
proof -
  let ?t = "''Alpha beta gamma delta epsilon zeta eta.  Theta iota kappa.''"
  have s: "sentences_of ?t = [''Alpha beta gamma delta epsilon zeta eta.'', ''Theta iota kappa.'']"
    by code_simp
  have h: "int (count_tokens None (clean_text ?t)) \<le> 500"
    by code_simp
  from chunk_text_short_text [of None ?t 500 50] h s show ?thesis
    by (simp add: count_tokens_def)
qed

text \<open>
  Claim C2 as stated fails: this text has 11 tokens, raw and cleaned, fewer than the
  budget of 500 and more than the minimum of 10, yet no chunk is returned. Removing the
  \<open>@\<close> leaves two blanks between the sentences; the chunk joins them by one blank and has
  43 characters, which are 10 tokens.
\<close>

theorem chunk_text_short_text_counterexample:
  "count_tokens None ''Alpha beta gamma delta epsilon. @ Zeta eta pi'' < 500
   \<and> 10 < count_tokens None ''Alpha beta gamma delta epsilon. @ Zeta eta pi''
   \<and> 10 < count_tokens None (clean_text ''Alpha beta gamma delta epsilon. @ Zeta eta pi'')
   \<and> chunk_text None ''Alpha beta gamma delta epsilon. @ Zeta eta pi'' 500 50 = []"
  by code_simp

text \<open>
  Claim C3 as stated fails: the chunks returned for the example hold no token at all,
  while the input has three.
\<close>

theorem chunk_text_example_counterexample:
  "\<not> count_tokens (Some letter_tokens) ''A. B. C.''
      \<le> sum_list (map (count_tokens (Some letter_tokens))
            (chunk_text (Some letter_tokens) ''A. B. C.'' 2 1))"
  by code_simp

text \<open>
  Claim C3, as amended. On \<open>chunk_text("A. B. C.", chunk_size=2, chunk_overlap=1)\<close> with one
  token per letter, the chunks assembled before the filter are \<open>A. B.\<close> and \<open>B. C.\<close>: no
  sentence is missing from them and they hold at least as many tokens as the input. Both
  have at most 10 tokens, so the filter on small chunks discards them and \<open>chunk_text\<close>
  returns the empty list.
\<close>

theorem chunk_text_example:
  "assembled_chunks (Some letter_tokens) ''A. B. C.'' 2 1 = [''A. B.'', ''B. C.'']
   \<and> count_tokens (Some letter_tokens) ''A. B. C.''
      \<le> sum_list (map (count_tokens (Some letter_tokens))
            (assembled_chunks (Some letter_tokens) ''A. B. C.'' 2 1))
   \<and> chunk_text (Some letter_tokens) ''A. B. C.'' 2 1 = []"
  by code_simp

text \<open>
  Claim C4 at a failing input. The docstring of \<open>chunk_text\<close> gives \<open>chunk_overlap\<close> in
  tokens, but the seed of a new chunk is cut from the list of accumulated sentences:
  \<open>current_chunk[-chunk_overlap:]\<close> counts sentences, and a chunk of at most \<open>chunk_overlap\<close>
  sentences is carried over whole. With \<open>chunk_size = 25\<close> and \<open>chunk_overlap = 2\<close> the second
  chunk starts with all 22 tokens of the first and has 32 tokens.
\<close>

theorem chunk_text_overlap_in_elements:
  "chunk_text None
     ''Alpha beta gamma delta epsilon zeta eta theta. Iota kappa lambda mu nu xi omicron pi rho. Sigma tau upsilon phi chi psi omega end.''
     25 2 =
   [''Alpha beta gamma delta epsilon zeta eta theta. Iota kappa lambda mu nu xi omicron pi rho.'',
    ''Alpha beta gamma delta epsilon zeta eta theta. Iota kappa lambda mu nu xi omicron pi rho. Sigma tau upsilon phi chi psi omega end.'']
   \<and> count_tokens None
       ''Alpha beta gamma delta epsilon zeta eta theta. Iota kappa lambda mu nu xi omicron pi rho.'' = 22
   \<and> count_tokens None
       ''Alpha beta gamma delta epsilon zeta eta theta. Iota kappa lambda mu nu xi omicron pi rho. Sigma tau upsilon phi chi psi omega end.'' = 32"
  by code_simp

text \<open>
  Claim C10 at a failing input. \<open>clean_text\<close> collapses the whitespace before it removes
  the special characters, so removing \<open>@\<close> leaves two blanks that only a second call
  collapses; \<open>chunk_text\<close> then returns different chunks for a text and for its cleaned
  form.
\<close>

theorem clean_text_not_idempotent:
  "clean_text ''a @ b'' = ''a  b''
   \<and> clean_text (clean_text ''a @ b'') = ''a b''
   \<and> chunk_text None ''The quick brown fox jumps over the lazy dog @ and runs away.'' 500 50
       = [''The quick brown fox jumps over the lazy dog  and runs away.'']
   \<and> chunk_text None (clean_text ''The quick brown fox jumps over the lazy dog @ and runs away.'') 500 50
       = [''The quick brown fox jumps over the lazy dog and runs away.'']"
  by code_simp

section \<open>Properties of retrieval\<close>

lemma search_similar_loaded:
  assumes "collection = Some c \<or> collection = None \<and> load_vector_db E = Inr (Some c)"
  shows "search_similar E collection qe k =
    (case collection_query E c qe (top_k_or k (TOP_K (cfg E))) of
       Inl e \<Rightarrow> (Some c, Inl e)
     | Inr results \<Rightarrow>
         (Some c,
          Inr (filter (\<lambda>(doc, sim). sim \<ge> SIMILARITY_THRESHOLD (cfg E))
                (map (\<lambda>(doc, dist). (doc, 1 - dist))
                   (zip (first_or_empty (documents results)) (first_or_empty (distances results)))))))"
  using assms by (auto simp: search_similar_def Let_def split: sum.splits)

lemma search_similar_cases:
  assumes "search_similar E collection qe k = (collection', Inr res)"
  shows "res = [] \<or>
    (\<exists>c r. collection' = Some c \<and>
       collection_query E c qe (top_k_or k (TOP_K (cfg E))) = Inr r \<and>
       res = filter (\<lambda>(doc, sim). sim \<ge> SIMILARITY_THRESHOLD (cfg E))
                (map (\<lambda>(doc, dist). (doc, 1 - dist))
                   (zip (first_or_empty (documents r)) (first_or_empty (distances r)))))"
  using assms
  by (auto simp: search_similar_def Let_def split: sum.splits option.splits)

text \<open>
  Claim C1. Every pair \<open>(doc, sim)\<close> that \<open>search_similar\<close> returns has a similarity at least
  \<open>SIMILARITY_THRESHOLD\<close>, so never below it, and that similarity is 1 minus a distance the
  store's query returned for \<open>doc\<close>. When there is no collection (none in the module and
  none to load), and when the collection's query returns no documents, the function
  returns the empty list and no exception.
\<close>

theorem search_similar_threshold:
  "(search_similar E collection qe k = (collection', Inr res) \<and> (doc, sim) \<in> set res \<longrightarrow>
      SIMILARITY_THRESHOLD (cfg E) \<le> sim \<and> \<not> sim < SIMILARITY_THRESHOLD (cfg E) \<and>
      (\<exists>c r dist. collection' = Some c \<and>
         collection_query E c qe (top_k_or k (TOP_K (cfg E))) = Inr r \<and>
         (doc, dist) \<in> set (zip (first_or_empty (documents r)) (first_or_empty (distances r))) \<and>
         sim = 1 - dist))
   \<and> (collection = None \<and> load_vector_db E = Inr None \<longrightarrow>
        search_similar E collection qe k = (None, Inr []))
   \<and> ((collection = Some c0 \<or> collection = None \<and> load_vector_db E = Inr (Some c0)) \<and>
       collection_query E c0 qe (top_k_or k (TOP_K (cfg E))) = Inr r0 \<and>
       first_or_empty (documents r0) = [] \<longrightarrow>
        search_similar E collection qe k = (Some c0, Inr []))"
proof (intro conjI impI)
  assume a: "search_similar E collection qe k = (collection', Inr res) \<and> (doc, sim) \<in> set res"
  then have "res \<noteq> []" by auto
  with search_similar_cases [of E collection qe k collection' res] a
  obtain c r where c: "collection' = Some c"
    and q: "collection_query E c qe (top_k_or k (TOP_K (cfg E))) = Inr r"
    and res: "res = filter (\<lambda>(doc, sim). sim \<ge> SIMILARITY_THRESHOLD (cfg E))
                (map (\<lambda>(doc, dist). (doc, 1 - dist))
                   (zip (first_or_empty (documents r)) (first_or_empty (distances r))))"
    by blast
  from a res show "SIMILARITY_THRESHOLD (cfg E) \<le> sim" by auto
  then show "\<not> sim < SIMILARITY_THRESHOLD (cfg E)" by simp
  from a res obtain dist where
    "(doc, dist) \<in> set (zip (first_or_empty (documents r)) (first_or_empty (distances r)))"
    "sim = 1 - dist" by auto
  with c q show "\<exists>c r dist. collection' = Some c \<and>
         collection_query E c qe (top_k_or k (TOP_K (cfg E))) = Inr r \<and>
         (doc, dist) \<in> set (zip (first_or_empty (documents r)) (first_or_empty (distances r))) \<and>
         sim = 1 - dist" by blast
next
  assume "collection = None \<and> load_vector_db E = Inr None"
  then show "search_similar E collection qe k = (None, Inr [])"
    by (simp add: search_similar_def)
next
  assume a: "(collection = Some c0 \<or> collection = None \<and> load_vector_db E = Inr (Some c0)) \<and>
       collection_query E c0 qe (top_k_or k (TOP_K (cfg E))) = Inr r0 \<and>
       first_or_empty (documents r0) = []"
  then have "collection = Some c0 \<or> collection = None \<and> load_vector_db E = Inr (Some c0)" by blast
  from search_similar_loaded [OF this, of qe k] a
  show "search_similar E collection qe k = (Some c0, Inr [])" by simp
qed

lemma demo_simps:
  "cfg demo_env = \<lparr>TOP_K = 3, SIMILARITY_THRESHOLD = 0.5, USE_OPENAI = False, OPENAI_API_KEY = []\<rparr>"
  "load_vector_db demo_env = Inr None"
  "collection_query demo_env = demo_query"
  "create_query_embedding demo_env = (\<lambda>q. Inr (length q))"
  "create_embeddings demo_env = (\<lambda>ts. Inr (map length ts))"
  "np_dot demo_env = (\<lambda>a b. 0.8)"
  "openai_chat demo_env = (\<lambda>p. None)"
  by (simp_all add: demo_env_def)

lemma demo_search_1:
  "search_similar demo_env (Some 1) 7 None = (Some 1, Inr [(''near'', 0.8)])"
  by (simp add: search_similar_def demo_simps demo_query_def top_k_or_def first_or_empty_def)

text \<open>The theorem on the test double: a hit above the threshold (the document at distance
  0.7 is filtered out), no collection, and the empty collection.\<close>

theorem search_similar_threshold_witness:
  "search_similar demo_env (Some 1) 7 None = (Some 1, Inr [(''near'', 0.8)])
   \<and> (''near'', 0.8) \<in> set [(''near'', 0.8 :: real)]
   \<and> SIMILARITY_THRESHOLD (cfg demo_env) \<le> 0.8
   \<and> load_vector_db demo_env = Inr None
   \<and> search_similar demo_env None 7 None = (None, Inr [])
   \<and> collection_query demo_env 0 7 (top_k_or None (TOP_K (cfg demo_env)))
        = Inr \<lparr>documents = Some [[]], distances = Some [[]]\<rparr>
   \<and> first_or_empty (documents \<lparr>documents = Some [[]], distances = Some [[]]\<rparr>) = []
   \<and> search_similar demo_env (Some 0) 7 None = (Some 0, Inr [])"
proof -
  have q: "collection_query demo_env 0 7 (top_k_or None (TOP_K (cfg demo_env)))
        = Inr \<lparr>documents = Some [[]], distances = Some [[]]\<rparr>"
    by (simp add: demo_simps demo_query_def)
  have f: "first_or_empty (documents \<lparr>documents = Some [[]], distances = Some [[]]\<rparr>) = []"
    by (simp add: first_or_empty_def)
  from search_similar_threshold [of demo_env "Some 1" 7 None "Some 1" "[(''near'', 0.8)]" "''near''" "0.8"
         0 "\<lparr>documents = Some [[]], distances = Some [[]]\<rparr>"]
       search_similar_threshold [of demo_env None 7 None None "[]" "''near''" "0.8"
         0 "\<lparr>documents = Some [[]], distances = Some [[]]\<rparr>"]
       search_similar_threshold [of demo_env "Some 0" 7 None None "[]" "''near''" "0.8"
         0 "\<lparr>documents = Some [[]], distances = Some [[]]\<rparr>"]
       demo_search_1 q f
  show ?thesis by (simp add: demo_simps)
qed

section \<open>Properties of the pipeline\<close>

lemma relevant_sentences_filter:
  "relevant_sentences ql ss acc =
     acc @ map strip (filter (\<lambda>s. \<exists>w \<in> set (split_ws ql). length w > 3 \<and> sublist w (lower s)) ss)"
proof (induction ss arbitrary: acc)
  case Nil
  then show ?case by simp
next
  case (Cons s ss)
  have "list_ex (\<lambda>word. sublist word (lower s)) (question_words ql)
          = (\<exists>w \<in> set (split_ws ql). length w > 3 \<and> sublist w (lower s))"
    by (auto simp: list_ex_iff question_words_def)
  with Cons show ?case by (simp add: Let_def)
qed

lemma split_on_nonempty: "split_on d s \<noteq> []"
  by (induction s) (auto split: list.splits)

lemma split_on_hd_prefix: "prefix (hd (split_on d s)) s"
  by (induction s) (auto split: list.splits)

lemma split_on_sublist: "p \<in> set (split_on d s) \<Longrightarrow> sublist p s"
proof (induction s arbitrary: p)
  case Nil
  then show ?case by simp
next
  case (Cons c cs)
  show ?case
  proof (cases "c = d")
    case True
    with Cons.prems have "p = [] \<or> p \<in> set (split_on d cs)" by simp
    then show ?thesis
    proof
      assume "p = []" then show ?thesis by simp
    next
      assume "p \<in> set (split_on d cs)"
      then have "sublist p cs" by (rule Cons.IH)
      then show ?thesis by (simp add: sublist_Cons_right)
    qed
  next
    case False
    obtain x xs where sp: "split_on d cs = x # xs"
      using split_on_nonempty [of d cs] by (cases "split_on d cs") auto
    with False Cons.prems have "p = c # x \<or> p \<in> set xs" by simp
    then show ?thesis
    proof
      assume "p = c # x"
      moreover from split_on_hd_prefix [of d cs] sp have "prefix x cs" by simp
      ultimately show ?thesis by (simp add: sublist_Cons_right)
    next
      assume "p \<in> set xs"
      with sp have "p \<in> set (split_on d cs)" by simp
      then have "sublist p cs" by (rule Cons.IH)
      then show ?thesis by (simp add: sublist_Cons_right)
    qed
  qed
qed

lemma sublist_lower: "sublist w (lower s) \<Longrightarrow> sublist s c \<Longrightarrow> sublist w (lower c)"
proof -
  assume a: "sublist w (lower s)" and b: "sublist s c"
  from b have "sublist (lower s) (lower c)"
    unfolding lower_def by (rule map_mono_sublist)
  with a show ?thesis by (rule sublist_order.order.trans)
qed

text \<open>
  Claim C5. When some sentence of the context contains a word of the question longer than
  3 characters, \<open>_fallback_response\<close> returns the first at most 2 such sentences, stripped
  and joined by \<open>". "\<close>, with a final full stop. When none does, and in particular when no
  such word occurs anywhere in the context, it returns the first 200 characters of the
  context after \<open>"Based on the provided context: "\<close>, followed by \<open>"..."\<close>.
\<close>

theorem fallback_response_spec:
  "(matching_sentences c q \<noteq> [] \<longrightarrow>
      fallback_response c q = join ''. '' (map strip (take 2 (matching_sentences c q))) @ ''.'')
   \<and> (matching_sentences c q = [] \<longrightarrow>
      fallback_response c q = ''Based on the provided context: '' @ take 200 c @ ''...'')
   \<and> ((\<forall>w \<in> set (split_ws (lower q)). length w > 3 \<longrightarrow> \<not> sublist w (lower c)) \<longrightarrow>
      fallback_response c q = ''Based on the provided context: '' @ take 200 c @ ''...''
      \<and> suffix ''...'' (fallback_response c q))"
proof -
  have rel: "relevant_sentences (lower q) (split_on CHR ''.'' c) [] = map strip (matching_sentences c q)"
    by (simp add: relevant_sentences_filter matching_sentences_def)
  have some: "fallback_response c q = join ''. '' (map strip (take 2 (matching_sentences c q))) @ ''.''"
    if "matching_sentences c q \<noteq> []"
    using that by (simp add: fallback_response_def rel Let_def take_map)
  have none: "fallback_response c q = ''Based on the provided context: '' @ take 200 c @ ''...''"
    if "matching_sentences c q = []"
    using that by (simp add: fallback_response_def rel Let_def)
  have nokey: "matching_sentences c q = []"
    if no: "\<forall>w \<in> set (split_ws (lower q)). length w > 3 \<longrightarrow> \<not> sublist w (lower c)"
  proof -
    have "\<not> (\<exists>w \<in> set (split_ws (lower q)). length w > 3 \<and> sublist w (lower s))"
      if "s \<in> set (split_on CHR ''.'' c)" for s
      using no sublist_lower [OF _ split_on_sublist [OF that]] by blast
    then show ?thesis by (simp add: matching_sentences_def filter_empty_conv)
  qed
  have suf: "suffix ''...'' (''Based on the provided context: '' @ take 200 c @ ''...'')"
    by (simp add: suffix_def)
  from some none nokey suf show ?thesis by (metis (no_types, lifting))
qed



text \<open>The theorem at a context with three matching sentences, and at a question none of
  whose words occurs in the context.\<close>

theorem fallback_response_spec_witness:
  "matching_sentences ''Cats sleep a lot. Dogs bark loudly. Birds sing. Loud dogs run. Dogs eat.'' ''Are DOGS loud?''
     = ['' Dogs bark loudly'', '' Loud dogs run'', '' Dogs eat'']
   \<and> fallback_response ''Cats sleep a lot. Dogs bark loudly. Birds sing. Loud dogs run. Dogs eat.'' ''Are DOGS loud?''
     = ''Dogs bark loudly. Loud dogs run.''
   \<and> matching_sentences ''Cats sleep a lot. Dogs bark.'' ''What about fish?'' = []
   \<and> split_ws (lower ''What about fish?'') = [''what'', ''about'', ''fish?'']
   \<and> \<not> sublist ''what'' (lower ''Cats sleep a lot. Dogs bark.'')
   \<and> \<not> sublist ''about'' (lower ''Cats sleep a lot. Dogs bark.'')
   \<and> \<not> sublist ''fish?'' (lower ''Cats sleep a lot. Dogs bark.'')
   \<and> fallback_response ''Cats sleep a lot. Dogs bark.'' ''What about fish?''
     = ''Based on the provided context: Cats sleep a lot. Dogs bark....''"
proof -
  have m1: "matching_sentences ''Cats sleep a lot. Dogs bark loudly. Birds sing. Loud dogs run. Dogs eat.'' ''Are DOGS loud?''
     = ['' Dogs bark loudly'', '' Loud dogs run'', '' Dogs eat'']"
    by code_simp
  have m2: "matching_sentences ''Cats sleep a lot. Dogs bark.'' ''What about fish?'' = []"
    by code_simp
  have w: "split_ws (lower ''What about fish?'') = [''what'', ''about'', ''fish?'']"
    by code_simp
  have n: "\<not> sublist ''what'' (lower ''Cats sleep a lot. Dogs bark.'')"
      "\<not> sublist ''about'' (lower ''Cats sleep a lot. Dogs bark.'')"
      "\<not> sublist ''fish?'' (lower ''Cats sleep a lot. Dogs bark.'')"
    by code_simp+
  have s: "map strip ['' Dogs bark loudly'', '' Loud dogs run''] = [''Dogs bark loudly'', ''Loud dogs run'']"
    by code_simp
  from fallback_response_spec [of "''Cats sleep a lot. Dogs bark loudly. Birds sing. Loud dogs run. Dogs eat.''" "''Are DOGS loud?''"]
       fallback_response_spec [of "''Cats sleep a lot. Dogs bark.''" "''What about fish?''"]
       m1 m2 w n s
  show ?thesis by simp
qed

text \<open>
  Claim C6. When the retrieval of \<open>RAGPipeline.ask\<close> returns no chunk, \<open>ask\<close> returns a record
  and no exception: the answer that no relevant information was found, no sources,
  confidence 0 and \<open>num_sources\<close> 0.
\<close>

theorem ask_no_match:
  "create_query_embedding E q = Inr qe \<and>
   search_similar E collection qe (Some (top_k_or k (TOP_K (cfg E)))) = (collection', Inr [])
   \<longrightarrow> ask E True collection q k use_sum =
         (collection',
          Inr \<lparr>answer = ''I couldn't find relevant information to answer your question.'',
               sources = [], confidence = 0, num_sources = 0\<rparr>)"
  by (simp add: ask_def)

text \<open>The theorem on the empty collection of the test double.\<close>

theorem ask_no_match_witness:
  "create_query_embedding demo_env ''What is it?'' = Inr 11 \<and>
   search_similar demo_env (Some 0) 11 (Some (top_k_or None (TOP_K (cfg demo_env)))) = (Some 0, Inr []) \<and>
   ask demo_env True (Some 0) ''What is it?'' None False =
         (Some 0,
          Inr \<lparr>answer = ''I couldn't find relevant information to answer your question.'',
               sources = [], confidence = 0, num_sources = 0\<rparr>)"
proof -
  have e: "create_query_embedding demo_env ''What is it?'' = Inr 11"
    by (simp add: demo_simps)
  have s: "search_similar demo_env (Some 0) 11 (Some (top_k_or None (TOP_K (cfg demo_env)))) = (Some 0, Inr [])"
    by (simp add: search_similar_def demo_simps demo_query_def top_k_or_def first_or_empty_def)
  from ask_no_match [of demo_env "''What is it?''" 11 "Some 0" None "Some 0" False] e s
  show ?thesis by simp
qed

text \<open>
  Claim C7. When the retrieval is not empty, the record that \<open>ask\<close> returns holds the first
  at most 3 retrieved chunks as sources, the arithmetic mean of the similarities of all
  the retrieved chunks as confidence, and the number of retrieved chunks as \<open>num_sources\<close>.
\<close>

theorem ask_record:
  "create_query_embedding E q = Inr qe \<and>
   search_similar E collection qe (Some (top_k_or k (TOP_K (cfg E)))) = (collection', Inr retrieved) \<and>
   retrieved \<noteq> []
   \<longrightarrow> (\<exists>r. ask E True collection q k use_sum = (collection', Inr r) \<and>
         sources r = take 3 (map fst retrieved) \<and>
         length (sources r) \<le> 3 \<and>
         confidence r = sum_list (map snd retrieved) / real (length retrieved) \<and>
         num_sources r = length retrieved)"
  by (simp add: ask_def Let_def)

text \<open>The theorem on four retrieved chunks: three sources are returned, and the confidence
  0.75 is the mean of the four similarities (that of the three sources is 0.8).\<close>

theorem ask_record_witness:
  "create_query_embedding demo_env ''What is it?'' = Inr 11 \<and>
   search_similar demo_env (Some 2) 11 (Some (top_k_or (Some 5) (TOP_K (cfg demo_env))))
     = (Some 2, Inr [(''one'', 0.9), (''two'', 0.8), (''three'', 0.7), (''four'', 0.6)]) \<and>
   (\<exists>r. ask demo_env True (Some 2) ''What is it?'' (Some 5) False = (Some 2, Inr r) \<and>
        sources r = [''one'', ''two'', ''three''] \<and> confidence r = 0.75 \<and> num_sources r = 4)"
proof -
  have e: "create_query_embedding demo_env ''What is it?'' = Inr 11"
    by (simp add: demo_simps)
  have s: "search_similar demo_env (Some 2) 11 (Some (top_k_or (Some 5) (TOP_K (cfg demo_env))))
     = (Some 2, Inr [(''one'', 0.9), (''two'', 0.8), (''three'', 0.7), (''four'', 0.6)])"
    by (simp add: search_similar_def demo_simps demo_query_def top_k_or_def first_or_empty_def)
  from ask_record [of demo_env "''What is it?''" 11 "Some 2" "Some 5" "Some 2"
      "[(''one'', 0.9), (''two'', 0.8), (''three'', 0.7), (''four'', 0.6)]" False] e s
  show ?thesis by auto
qed

section \<open>Properties of the HTTP handler\<close>

lemma strip_whitespace_only: "strip (filter is_space s) = []"
proof -
  have blank: "dropWhile is_space (filter is_space s) = []"
    by (induction s) auto
  show ?thesis unfolding strip_def blank by simp
qed

text \<open>
  Claim C9 at the failing inputs. A question made of whitespace only is \<open>filter is_space s\<close>
  for some \<open>s\<close> (the empty question for \<open>s = []\<close>). For such a question the handler raises
  \<open>HTTPException(status_code=400)\<close> inside its \<open>try\<close> block; the \<open>except Exception\<close> clause
  of the same block catches it, and the response is the 500 error that wraps the message
  of the 400 one.
\<close>

theorem ask_question_empty_is_500:
  "ask_question E loaded collection (request\<lparr>question := filter is_space s\<rparr>) =
     (collection,
      Inl (HTTPException 500
             (''Internal server error: '' @ str_exn E (HTTPException 400 ''Question cannot be empty''))))"
  by (simp add: ask_question_def ask_question_body_def strip_whitespace_only)

section \<open>Properties of the evaluation\<close>

text \<open>
  Claim C8. The overall score of \<open>comprehensive_evaluation\<close> is 0.5 times the relevance score
  plus 0.2 times the keyword coverage plus 0.2 times the context-usage ratio plus 0.1
  times the length score; the length score takes two values, 1 for an answer of 10 to 200
  words and 0.5 otherwise; the recommendation is \<open>Good\<close> exactly when the overall score is
  at least 0.7. The evaluation is returned whenever the embeddings of the relevance score
  are.
\<close>

theorem comprehensive_evaluation_score:
  "(comprehensive_evaluation E q texts ans = Inr ev \<longrightarrow>
      overall_score ev =
        0.5 * relevance_score (retrieval_evaluation ev) + 0.2 * coverage (retrieval_evaluation ev) +
        0.2 * context_usage (answer_evaluation ev) + 0.1 * length_score (answer_evaluation ev)
      \<and> length_score (answer_evaluation ev) =
          (if 10 \<le> length (split_ws ans) \<and> length (split_ws ans) \<le> 200 then 1 else 0.5)
      \<and> (recommendation ev = ''Good'') = (0.7 \<le> overall_score ev)
      \<and> evaluate_retrieval E q texts 0.6 = Inr (retrieval_evaluation ev)
      \<and> answer_evaluation ev = evaluate_answer_quality ans q (join (nl @ nl) texts))
   \<and> (calculate_relevance_score E q texts = Inr rel \<longrightarrow>
        (\<exists>ev'. comprehensive_evaluation E q texts ans = Inr ev'))"
proof (intro conjI impI)
  assume a: "comprehensive_evaluation E q texts ans = Inr ev"
  then obtain rv where rv: "evaluate_retrieval E q texts 0.6 = Inr rv"
    by (cases "evaluate_retrieval E q texts 0.6") (simp_all add: comprehensive_evaluation_def)
  let ?av = "evaluate_answer_quality ans q (join (nl @ nl) texts)"
  let ?o = "relevance_score rv * 0.5 + coverage rv * 0.2 + context_usage ?av * 0.2 + length_score ?av * 0.1"
  from a rv have ev: "ev = \<lparr>query = q, retrieval_evaluation = rv, answer_evaluation = ?av,
      overall_score = ?o,
      recommendation = (if ?o \<ge> 0.7 then ''Good'' else ''Needs improvement'')\<rparr>"
    by (simp add: comprehensive_evaluation_def Let_def)
  show "overall_score ev =
        0.5 * relevance_score (retrieval_evaluation ev) + 0.2 * coverage (retrieval_evaluation ev) +
        0.2 * context_usage (answer_evaluation ev) + 0.1 * length_score (answer_evaluation ev)"
    by (simp add: ev)
  show "length_score (answer_evaluation ev) =
          (if 10 \<le> length (split_ws ans) \<and> length (split_ws ans) \<le> 200 then 1 else 0.5)"
    by (simp add: ev evaluate_answer_quality_def Let_def)
  show "(recommendation ev = ''Good'') = (0.7 \<le> overall_score ev)"
    by (simp add: ev)
  show "evaluate_retrieval E q texts 0.6 = Inr (retrieval_evaluation ev)"
    using rv by (simp add: ev)
  show "answer_evaluation ev = evaluate_answer_quality ans q (join (nl @ nl) texts)"
    by (simp add: ev)
next
  assume "calculate_relevance_score E q texts = Inr rel"
  then show "\<exists>ev'. comprehensive_evaluation E q texts ans = Inr ev'"
    by (simp add: comprehensive_evaluation_def evaluate_retrieval_def Let_def)
qed



text \<open>The theorem on the test double, for an answer of three words.\<close>

theorem comprehensive_evaluation_score_witness:
  "comprehensive_evaluation demo_env ''dogs bark'' [''Dogs bark loudly.''] ''Dogs bark loudly.'' =
     Inr \<lparr>query = ''dogs bark'',
          retrieval_evaluation =
            \<lparr>relevance_score = 0.8, coverage = 1, is_relevant = True,
             is_complete = True, assessment = ''Good''\<rparr>,
          answer_evaluation =
            \<lparr>has_answer = True, context_usage = 1, length_score = 0.5,
             overall_quality = ''Good''\<rparr>,
          overall_score = 0.85, recommendation = ''Good''\<rparr>
   \<and> (0.85 :: real) = 0.5 * 0.8 + 0.2 * 1 + 0.2 * 1 + 0.1 * 0.5
   \<and> length (split_ws ''Dogs bark loudly.'') = 3
   \<and> calculate_relevance_score demo_env ''dogs bark'' [''Dogs bark loudly.''] = Inr 0.8"
proof -
  have c: "comprehensive_evaluation demo_env ''dogs bark'' [''Dogs bark loudly.''] ''Dogs bark loudly.'' =
     Inr \<lparr>query = ''dogs bark'',
          retrieval_evaluation =
            \<lparr>relevance_score = 0.8, coverage = 1, is_relevant = True,
             is_complete = True, assessment = ''Good''\<rparr>,
          answer_evaluation =
            \<lparr>has_answer = True, context_usage = 1, length_score = 0.5,
             overall_quality = ''Good''\<rparr>,
          overall_score = 0.85, recommendation = ''Good''\<rparr>"
    by code_simp
  have r: "calculate_relevance_score demo_env ''dogs bark'' [''Dogs bark loudly.''] = Inr 0.8"
    by code_simp
  have l: "length (split_ws ''Dogs bark loudly.'') = 3"
    by code_simp
  from comprehensive_evaluation_score [of demo_env "''dogs bark''" "[''Dogs bark loudly.'']"
         "''Dogs bark loudly.''"
         "\<lparr>query = ''dogs bark'',
          retrieval_evaluation =
            \<lparr>relevance_score = 0.8, coverage = 1, is_relevant = True,
             is_complete = True, assessment = ''Good''\<rparr>,
          answer_evaluation =
            \<lparr>has_answer = True, context_usage = 1, length_score = 0.5,
             overall_quality = ''Good''\<rparr>,
          overall_score = 0.85, recommendation = ''Good''\<rparr>" "0.8"] c r l
  show ?thesis by simp
qed

end
